theory Spec2Isabelle
  imports Main
begin

section \<open>Session status polling of the upload page (static/js/main.js)\<close>

text \<open>
  The development embeds \<^verbatim>\<open>SessionManager\<close> of \<^verbatim>\<open>static/js/main.js\<close>: the polling
  timer kept in \<^verbatim>\<open>window.APP.pollingInterval\<close>, the mapping from the server's status to
  the progress bar, and the step indicators. The browser is made explicit: the table of
  active interval timers, the parts of the page the script writes to, the toasts and the
  console. A poll is two events, the firing of the timer, which issues the request, and
  the arrival of the response, whose outcome is a parameter of the event.
\<close>

subsection \<open>Values and responses\<close>

text \<open>The JavaScript values a field of the decoded response may hold.\<close>

datatype js_value = JUndefined | JNull | JBool bool | JNum int | JStr string

text \<open>The decoded body of \<^verbatim>\<open>GET /status/{sessionId}\<close>: the two fields the script reads.\<close>

record status_data =
  status :: js_value
  session_id :: js_value

datatype js_error = TypeError

text \<open>
  What \<^verbatim>\<open>Utils.apiRequest\<close> settles to: the decoded body, or a rejection (network
  failure, a response that is not ok, a body that is not JSON) with its message.
\<close>

datatype fetch_outcome = Resolved status_data | Rejected string

datatype callback = OnProcessingComplete | OnProcessingError

subsection \<open>The page and the browser\<close>

text \<open>A step element \<^verbatim>\<open>#step-...\<close>: its class list, and the class list and colour of its icon.\<close>

record step_el =
  classes :: "string list"
  iconClasses :: "string list"
  iconColor :: "string option"

text \<open>
  The fields of \<^verbatim>\<open>window.APP\<close>, the browser's interval timers (the handle and the session
  id captured by the timer's closure; \<open>timerCounter\<close> is the last handle issued), and the
  parts of the page that \<^verbatim>\<open>SessionManager\<close> writes. \<open>barWidth\<close> and \<open>barText\<close> hold the
  number \<open>n\<close> of the strings \<^verbatim>\<open>n + '%'\<close> written to the bar. \<open>calls\<close> is the trace of
  the handlers entered; it is instrumentation and is read by no operation.
\<close>

record app_state =
  currentSessionId :: "string option"
  pollingInterval :: "nat option"
  isProcessing :: bool
  timerCounter :: nat
  timers :: "(nat \<times> string) list"
  barWidth :: int
  barText :: int
  barClasses :: "string list"
  statusText :: string
  stepEls :: "string \<rightharpoonup> step_el"
  progressSectionShown :: bool
  resultSectionShown :: bool
  sessionIdText :: string
  reviewBtnTarget :: "string option"
  downloadBtnTarget :: "string option"
  formInputsDisabled :: bool
  uploadBtnDisabled :: bool
  uploadBtnText :: string
  toasts :: "(string \<times> string) list"
  consoleErrors :: "(string \<times> string) list"
  calls :: "callback list"

subsection \<open>Timers\<close>

text \<open>\<^verbatim>\<open>if (window.APP.pollingInterval)\<close>: null is falsy, and so is the number 0.\<close>

definition truthy_handle :: "nat option \<Rightarrow> bool" where
  "truthy_handle h = (case h of None \<Rightarrow> False | Some n \<Rightarrow> n \<noteq> 0)"

text \<open>\<^verbatim>\<open>clearInterval\<close> removes the timer with that handle; an unknown handle is ignored.\<close>

definition clearInterval :: "app_state \<Rightarrow> nat option \<Rightarrow> app_state" where
  "clearInterval s h =
     (case h of
        None \<Rightarrow> s
      | Some n \<Rightarrow> s\<lparr>timers := filter (\<lambda>t. fst t \<noteq> n) (timers s)\<rparr>)"

text \<open>\<^verbatim>\<open>setInterval\<close> installs a timer and returns its handle, an integer greater than zero.\<close>

definition setInterval :: "app_state \<Rightarrow> string \<Rightarrow> nat \<times> app_state" where
  "setInterval s sessionId =
     (let h = Suc (timerCounter s)
      in (h, s\<lparr>timerCounter := h, timers := timers s @ [(h, sessionId)]\<rparr>))"

definition startPolling :: "app_state \<Rightarrow> string \<Rightarrow> app_state" where
  "startPolling s sessionId =
     (let s1 = (if truthy_handle (pollingInterval s)
                then clearInterval s (pollingInterval s) else s);
          (h, s2) = setInterval s1 sessionId
      in s2\<lparr>pollingInterval := Some h\<rparr>)"

definition stopPolling :: "app_state \<Rightarrow> app_state" where
  "stopPolling s =
     (if truthy_handle (pollingInterval s)
      then (clearInterval s (pollingInterval s))\<lparr>pollingInterval := None\<rparr>
      else s)"

subsection \<open>Toasts and the console\<close>

definition showToast :: "app_state \<Rightarrow> string \<Rightarrow> string \<Rightarrow> app_state" where
  "showToast s message type = s\<lparr>toasts := toasts s @ [(message, type)]\<rparr>"

definition console_error :: "app_state \<Rightarrow> string \<Rightarrow> string \<Rightarrow> app_state" where
  "console_error s label err = s\<lparr>consoleErrors := consoleErrors s @ [(label, err)]\<rparr>"

subsection \<open>Progress bar and step indicators\<close>

text \<open>jQuery's \<^verbatim>\<open>removeClass\<close> and \<^verbatim>\<open>addClass\<close> on a list of class names.\<close>

definition removeClass :: "string list \<Rightarrow> string list \<Rightarrow> string list" where
  "removeClass names cs = filter (\<lambda>c. c \<notin> set names) cs"

fun addClass :: "string list \<Rightarrow> string list \<Rightarrow> string list" where
  "addClass [] cs = cs"
| "addClass (n # ns) cs = addClass ns (if n \<in> set cs then cs else cs @ [n])"

record step =
  step_id :: string
  threshold :: int

definition steps :: "step list" where
  "steps =
     [\<lparr>step_id = ''step-upload'', threshold = 20\<rparr>,
      \<lparr>step_id = ''step-transcription'', threshold = 35\<rparr>,
      \<lparr>step_id = ''step-ocr'', threshold = 50\<rparr>,
      \<lparr>step_id = ''step-correlation'', threshold = 65\<rparr>,
      \<lparr>step_id = ''step-ai'', threshold = 80\<rparr>,
      \<lparr>step_id = ''step-complete'', threshold = 100\<rparr>]"

text \<open>
  The body of the \<^verbatim>\<open>forEach\<close> callback, on the element of one step and its icon.
  Below the window of 15 there is no branch: the element is left as it was.
\<close>

definition styleStep :: "int \<Rightarrow> step \<Rightarrow> step_el \<Rightarrow> step_el" where
  "styleStep percent st el =
     (if percent \<ge> threshold st then
        el\<lparr>classes := addClass [''completed''] (removeClass [''current''] (classes el)),
           iconClasses := addClass [''fa-check-circle'']
             (removeClass [''fa-circle'', ''fa-circle-notch'', ''fa-spin''] (iconClasses el)),
           iconColor := Some ''#28a745''\<rparr>
      else if percent \<ge> threshold st - 15 then
        el\<lparr>classes := addClass [''current''] (removeClass [''completed''] (classes el)),
           iconClasses := addClass [''fa-circle-notch'', ''fa-spin'']
             (removeClass [''fa-circle'', ''fa-check-circle''] (iconClasses el)),
           iconColor := Some ''#007bff''\<rparr>
      else el)"

text \<open>
  The callback on the page: \<^verbatim>\<open>$('#' + step.id)\<close> selects the element; a selector that
  matches nothing gives an empty jQuery set, on which every call does nothing.
\<close>

definition updateStep :: "int \<Rightarrow> step \<Rightarrow> (string \<rightharpoonup> step_el) \<Rightarrow> (string \<rightharpoonup> step_el)" where
  "updateStep percent st els =
     (case els (step_id st) of
        None \<Rightarrow> els
      | Some el \<Rightarrow> els(step_id st \<mapsto> styleStep percent st el))"

definition updateStepIndicators :: "app_state \<Rightarrow> int \<Rightarrow> app_state" where
  "updateStepIndicators s percent = s\<lparr>stepEls := fold (updateStep percent) steps (stepEls s)\<rparr>"

definition updateProgress :: "app_state \<Rightarrow> int \<Rightarrow> string \<Rightarrow> app_state" where
  "updateProgress s percent text =
     updateStepIndicators (s\<lparr>barWidth := percent, barText := percent, statusText := text\<rparr>) percent"

subsection \<open>Messages\<close>

text \<open>The texts of the script; a letter outside ASCII is written by its code unit.\<close>

definition msg_upload_done :: string where
  "msg_upload_done = ''Upload conclu'' @ [CHR 0xED] @ ''do''"

definition msg_processing :: string where
  "msg_processing = ''Processando dados...''"

definition msg_completed :: string where
  "msg_completed = ''Processamento conclu'' @ [CHR 0xED] @ ''do!''"

definition msg_success :: string where
  "msg_success = ''Documenta'' @ [CHR 0xE7, CHR 0xE3] @ ''o gerada com sucesso!''"

definition msg_error_status :: string where
  "msg_error_status = ''Erro no processamento''"

definition msg_error_toast :: string where
  "msg_error_toast = ''Erro durante o processamento. Tente novamente.''"

definition msg_check_failed :: string where
  "msg_check_failed = ''Erro ao verificar status''"

subsection \<open>Terminal transitions\<close>

definition setupDownloadButtons :: "app_state \<Rightarrow> string \<Rightarrow> app_state" where
  "setupDownloadButtons s sessionId =
     s\<lparr>reviewBtnTarget := Some (''/review/'' @ sessionId),
       downloadBtnTarget := Some (''/export/'' @ sessionId @ ''/docx'')\<rparr>"

text \<open>
  \<^verbatim>\<open>data.session_id.substring(0, 8)\<close> throws a TypeError unless \<^verbatim>\<open>session_id\<close> is a
  string; what ran before it has already taken effect, what follows it does not run.
\<close>

definition onProcessingComplete :: "app_state \<Rightarrow> status_data \<Rightarrow> app_state \<times> js_error option" where
  "onProcessingComplete s data =
     (let s0 = s\<lparr>calls := calls s @ [OnProcessingComplete]\<rparr>;
          s1 = stopPolling s0;
          s2 = s1\<lparr>progressSectionShown := False, resultSectionShown := True\<rparr>
      in case session_id data of
           JStr sid \<Rightarrow>
             (showToast (setupDownloadButtons (s2\<lparr>sessionIdText := take 8 sid\<rparr>) sid)
                msg_success ''success'', None)
         | _ \<Rightarrow> (s2, Some TypeError))"

definition onProcessingError :: "app_state \<Rightarrow> status_data \<Rightarrow> app_state" where
  "onProcessingError s data =
     (let s0 = s\<lparr>calls := calls s @ [OnProcessingError]\<rparr>;
          s1 = stopPolling s0;
          s2 = s1\<lparr>barClasses := addClass [''bg-danger'']
                  (removeClass [''progress-bar-striped'', ''progress-bar-animated''] (barClasses s1)),
                statusText := msg_error_status\<rparr>;
          s3 = showToast s2 msg_error_toast ''danger''
      in s3\<lparr>formInputsDisabled := False, uploadBtnDisabled := False,
            uploadBtnText := ''Processar Arquivos''\<rparr>)"

subsection \<open>Status updates and responses\<close>

definition handleStatusUpdate :: "app_state \<Rightarrow> status_data \<Rightarrow> app_state \<times> js_error option" where
  "handleStatusUpdate s data =
     (if status data = JStr ''uploading'' then (updateProgress s 20 msg_upload_done, None)
      else if status data = JStr ''processing'' then (updateProgress s 60 msg_processing, None)
      else if status data = JStr ''completed'' then
        onProcessingComplete (updateProgress s 100 msg_completed) data
      else if status data = JStr ''error'' then (onProcessingError s data, None)
      else (s, None))"

text \<open>The handler of the \<^verbatim>\<open>.catch\<close> in \<^verbatim>\<open>checkStatus\<close>.\<close>

definition status_check_failed :: "app_state \<Rightarrow> string \<Rightarrow> app_state" where
  "status_check_failed s err =
     showToast (console_error s ''Error checking status:'' err) msg_check_failed ''danger''"

text \<open>
  \<^verbatim>\<open>checkStatus\<close> with the outcome of its request. A rejection passes the \<^verbatim>\<open>.catch\<close> of
  \<^verbatim>\<open>Utils.apiRequest\<close>, which logs and throws again, and then the one of \<^verbatim>\<open>checkStatus\<close>.
  An error thrown by \<^verbatim>\<open>handleStatusUpdate\<close> reaches the second handler only.
\<close>

definition checkStatus :: "app_state \<Rightarrow> string \<Rightarrow> fetch_outcome \<Rightarrow> app_state" where
  "checkStatus s sessionId outcome =
     (case outcome of
        Rejected err \<Rightarrow>
          status_check_failed (console_error s ''API Request Error:'' err) err
      | Resolved data \<Rightarrow>
          (case handleStatusUpdate s data of
             (s', None) \<Rightarrow> s'
           | (s', Some TypeError) \<Rightarrow> status_check_failed s' ''TypeError''))"

subsection \<open>Polls in flight\<close>

text \<open>
  The page together with the requests that \<^verbatim>\<open>checkStatus\<close> has issued and that have
  not been answered yet: the session id of each, oldest first.
\<close>

record poller =
  page :: app_state
  pending :: "string list"

text \<open>
  The timer with handle \<open>h\<close> comes due: if it is still installed its callback calls
  \<^verbatim>\<open>checkStatus\<close> for the session it captured, which issues the request and returns; a
  cancelled timer does not fire. The timer does not wait for the response, so several
  requests may be under way.
\<close>

definition timer_fires :: "poller \<Rightarrow> nat \<Rightarrow> poller" where
  "timer_fires b h =
     (case map_of (timers (page b)) h of
        None \<Rightarrow> b
      | Some sessionId \<Rightarrow> b\<lparr>pending := pending b @ [sessionId]\<rparr>)"

text \<open>
  The request at position \<open>i\<close> is answered: the handlers that \<^verbatim>\<open>checkStatus\<close> attached
  run on the page as it is at that moment. Nothing in them looks at the timer or at
  \<^verbatim>\<open>window.APP\<close>: the response of a request issued before \<^verbatim>\<open>clearInterval\<close> is handled
  like any other.
\<close>

definition response_arrives :: "poller \<Rightarrow> nat \<Rightarrow> fetch_outcome \<Rightarrow> poller" where
  "response_arrives b i outcome =
     (if i < length (pending b)
      then \<lparr>page = checkStatus (page b) (pending b ! i) outcome,
            pending = take i (pending b) @ drop (Suc i) (pending b)\<rparr>
      else b)"

datatype event = TimerFires nat | ResponseArrives nat fetch_outcome

fun step_event :: "poller \<Rightarrow> event \<Rightarrow> poller" where
  "step_event b (TimerFires h) = timer_fires b h"
| "step_event b (ResponseArrives i outcome) = response_arrives b i outcome"

definition run_events :: "poller \<Rightarrow> event list \<Rightarrow> poller" where
  "run_events b evs = foldl step_event b evs"

text \<open>
  A tick that is answered before anything else happens, with nothing else under way:
  the timer with handle \<open>fst ev\<close> fires and the response \<open>snd ev\<close> arrives at once.
\<close>

definition tick :: "app_state \<Rightarrow> nat \<times> fetch_outcome \<Rightarrow> app_state" where
  "tick s ev =
     page (response_arrives (timer_fires \<lparr>page = s, pending = []\<rparr> (fst ev)) 0 (snd ev))"

definition ticks :: "app_state \<Rightarrow> (nat \<times> fetch_outcome) list \<Rightarrow> app_state" where
  "ticks s evs = foldl tick s evs"

text \<open>
  The states after each of a sequence of status updates, in order. An error thrown by an
  update is caught in \<^verbatim>\<open>checkStatus\<close>; the state the update left behind is the one
  the next update finds.
\<close>

fun handle_all :: "app_state \<Rightarrow> status_data list \<Rightarrow> app_state list" where
  "handle_all s [] = []"
| "handle_all s (d # ds) =
     (let s' = fst (handleStatusUpdate s d) in s' # handle_all s' ds)"

subsection \<open>The page as loaded\<close>

text \<open>
  \<^verbatim>\<open>window.APP\<close> as the script initialises it, no timer installed, and the page before
  any upload: every step pending with a plain circle icon, the bar at 0.
\<close>

definition pending_el :: step_el where
  "pending_el = \<lparr>classes = [''step''], iconClasses = [''fas'', ''fa-circle''], iconColor = None\<rparr>"

definition init_state :: app_state where
  "init_state =
     \<lparr>currentSessionId = None, pollingInterval = None, isProcessing = False,
      timerCounter = 0, timers = [],
      barWidth = 0, barText = 0,
      barClasses = [''progress-bar'', ''progress-bar-striped'', ''progress-bar-animated''],
      statusText = [],
      stepEls = map_of (map (\<lambda>st. (step_id st, pending_el)) steps),
      progressSectionShown = False, resultSectionShown = False,
      sessionIdText = [], reviewBtnTarget = None, downloadBtnTarget = None,
      formInputsDisabled = False, uploadBtnDisabled = False,
      uploadBtnText = ''Processar Arquivos'',
      toasts = [], consoleErrors = [], calls = []\<rparr>"

text \<open>
  The timer table holds exactly the timer that \<^verbatim>\<open>window.APP.pollingInterval\<close> names:
  none when it is null, that one otherwise.
\<close>

definition timers_ok :: "app_state \<Rightarrow> bool" where
  "timers_ok s =
     (case pollingInterval s of
        None \<Rightarrow> timers s = []
      | Some h \<Rightarrow> h \<noteq> 0 \<and> map fst (timers s) = [h])"

text \<open>How a step element reads on the page.\<close>

datatype classification = Completed | Current | Pending

definition rendered :: "step_el \<Rightarrow> classification" where
  "rendered el =
     (if ''completed'' \<in> set (classes el) then Completed
      else if ''current'' \<in> set (classes el) then Current
      else Pending)"

text \<open>
  The classification as the specification words it, with the look-behind window of the
  script (15): completed from the threshold on, current within the window below it,
  pending otherwise. It is compared below with what \<open>updateStepIndicators\<close> renders.
\<close>

definition spec_classification :: "int \<Rightarrow> int \<Rightarrow> classification" where
  "spec_classification p t =
     (if p \<ge> t then Completed else if t - 15 \<le> p \<and> p < t then Current else Pending)"

section \<open>Basic facts\<close>

lemmas timer_defs = truthy_handle_def clearInterval_def setInterval_def startPolling_def stopPolling_def
lemmas progress_defs = updateProgress_def updateStepIndicators_def
lemmas handler_defs = onProcessingComplete_def onProcessingError_def showToast_def
  setupDownloadButtons_def console_error_def status_check_failed_def

lemma stopPolling_eq:
  "stopPolling s =
     s\<lparr>pollingInterval := (if truthy_handle (pollingInterval s) then None else pollingInterval s),
       timers := (if truthy_handle (pollingInterval s)
                  then filter (\<lambda>t. Some (fst t) \<noteq> pollingInterval s) (timers s) else timers s)\<rparr>"
  by (cases "pollingInterval s") (auto simp: timer_defs)

lemma stopPolling_ok:
  "timers_ok s \<Longrightarrow> pollingInterval (stopPolling s) = None \<and> timers (stopPolling s) = []"
  by (cases "pollingInterval s") (auto simp: timers_ok_def timer_defs)

lemma startPolling_ok:
  "timers_ok s \<Longrightarrow>
     pollingInterval (startPolling s a) = Some (Suc (timerCounter s)) \<and>
     timers (startPolling s a) = [(Suc (timerCounter s), a)] \<and>
     timerCounter (startPolling s a) = Suc (timerCounter s)"
  by (cases "pollingInterval s") (auto simp: timers_ok_def timer_defs Let_def)

lemma timers_ok_init: "timers_ok init_state"
  by (simp add: timers_ok_def init_state_def)

lemma timers_ok_stopPolling: "timers_ok s \<Longrightarrow> timers_ok (stopPolling s)"
  by (simp add: stopPolling_ok timers_ok_def)

lemma timers_ok_startPolling: "timers_ok s \<Longrightarrow> timers_ok (startPolling s a)"
  using startPolling_ok [of s a] by (simp add: timers_ok_def)

lemma timers_ok_frame:
  "timers_ok s \<Longrightarrow> pollingInterval s' = pollingInterval s \<Longrightarrow> timers s' = timers s \<Longrightarrow> timers_ok s'"
  by (simp add: timers_ok_def split: option.splits)

lemma timers_ok_updateProgress: "timers_ok s \<Longrightarrow> timers_ok (updateProgress s p t)"
  by (erule timers_ok_frame) (simp_all add: progress_defs)

lemma timers_ok_onProcessingComplete:
  assumes "timers_ok s"
  shows "timers_ok (fst (onProcessingComplete s d))"
proof -
  from assms have "timers_ok (s\<lparr>calls := calls s @ [OnProcessingComplete]\<rparr>)"
    by (rule timers_ok_frame) simp_all
  then have "timers_ok (stopPolling (s\<lparr>calls := calls s @ [OnProcessingComplete]\<rparr>))"
    by (rule timers_ok_stopPolling)
  then show ?thesis
    by (rule timers_ok_frame)
      (simp_all add: onProcessingComplete_def showToast_def setupDownloadButtons_def Let_def
        split: js_value.splits)
qed

lemma timers_ok_onProcessingError:
  assumes "timers_ok s"
  shows "timers_ok (onProcessingError s d)"
proof -
  from assms have "timers_ok (s\<lparr>calls := calls s @ [OnProcessingError]\<rparr>)"
    by (rule timers_ok_frame) simp_all
  then have "timers_ok (stopPolling (s\<lparr>calls := calls s @ [OnProcessingError]\<rparr>))"
    by (rule timers_ok_stopPolling)
  then show ?thesis
    by (rule timers_ok_frame) (simp_all add: onProcessingError_def showToast_def Let_def)
qed

lemma timers_ok_handleStatusUpdate:
  "timers_ok s \<Longrightarrow> timers_ok (fst (handleStatusUpdate s d))"
  by (simp add: handleStatusUpdate_def timers_ok_updateProgress timers_ok_onProcessingComplete
      timers_ok_onProcessingError)

lemma timers_ok_status_check_failed:
  "timers_ok s \<Longrightarrow> timers_ok (status_check_failed s e)"
  by (erule timers_ok_frame) (simp_all add: status_check_failed_def showToast_def console_error_def)

lemma timers_ok_checkStatus:
  assumes "timers_ok s"
  shows "timers_ok (checkStatus s sid out)"
proof (cases out)
  case (Resolved d)
  obtain s' x where h: "handleStatusUpdate s d = (s', x)"
    by (cases "handleStatusUpdate s d")
  with timers_ok_handleStatusUpdate [OF assms, of d] have "timers_ok s'" by simp
  with Resolved h show ?thesis
    by (simp add: checkStatus_def timers_ok_status_check_failed
        split: option.splits js_error.splits)
next
  case (Rejected e)
  from assms have "timers_ok (console_error s ''API Request Error:'' e)"
    by (rule timers_ok_frame) (simp_all add: console_error_def)
  with Rejected show ?thesis
    by (simp add: checkStatus_def timers_ok_status_check_failed)
qed

lemma tick_eq:
  "tick s ev =
     (case map_of (timers s) (fst ev) of
        None \<Rightarrow> s
      | Some sessionId \<Rightarrow> checkStatus s sessionId (snd ev))"
  by (simp add: tick_def timer_fires_def response_arrives_def split: option.splits)

lemma timers_ok_tick: "timers_ok s \<Longrightarrow> timers_ok (tick s ev)"
  by (simp add: tick_eq timers_ok_checkStatus split: option.splits)

lemma tick_no_timers: "timers s = [] \<Longrightarrow> tick s ev = s"
  by (simp add: tick_eq)

lemma timer_fires_no_timers: "timers (page b) = [] \<Longrightarrow> timer_fires b h = b"
  by (simp add: timer_fires_def)

lemma step_event_idle:
  "timers (page b) = [] \<Longrightarrow> pending b = [] \<Longrightarrow> step_event b ev = b"
  by (cases ev) (simp_all add: timer_fires_def response_arrives_def)

lemma run_events_idle:
  "timers (page b) = [] \<Longrightarrow> pending b = [] \<Longrightarrow> run_events b evs = b"
  unfolding run_events_def by (induction evs) (simp_all add: step_event_idle)

lemma bar_le_60_kept:
  "status d \<noteq> JStr ''completed'' \<Longrightarrow> barWidth s \<le> 60 \<Longrightarrow>
     barWidth (fst (handleStatusUpdate s d)) \<le> 60"
  by (simp add: handleStatusUpdate_def updateProgress_def updateStepIndicators_def
      onProcessingError_def showToast_def stopPolling_eq Let_def)

lemma bar_le_60_init: "barWidth init_state \<le> 60"
  by (simp add: init_state_def)

lemma sixty_steps:
  "x \<le> 60 \<Longrightarrow>
     list_all (\<lambda>(a, b). a \<le> b \<and> b - a \<le> 60 - x \<and> b \<le> 90)
       (zip (x # replicate n 60) (replicate n (60::int)))"
proof (cases n)
  case 0
  then show ?thesis by simp
next
  case (Suc m)
  assume x: "x \<le> 60"
  have "list_all (\<lambda>(a, b). a \<le> b \<and> b - a \<le> 60 - x \<and> b \<le> 90)
          (zip (replicate k 60) (replicate m (60::int)))" for k
    using x by (auto simp: list_all_iff set_zip)
  from this [of "Suc m"] x Suc show ?thesis by simp
qed

lemma ticks_no_timers: "timers s = [] \<Longrightarrow> ticks s evs = s"
  unfolding ticks_def by (induction evs) (simp_all add: tick_no_timers)

lemma processing_update:
  "status d = JStr ''processing'' \<Longrightarrow>
     barWidth (fst (handleStatusUpdate s d)) = 60 \<and> barText (fst (handleStatusUpdate s d)) = 60"
  by (simp add: handleStatusUpdate_def progress_defs)

lemma handle_all_processing:
  "\<forall>d\<in>set ds. status d = JStr ''processing'' \<Longrightarrow>
     map barWidth (handle_all s ds) = replicate (length ds) 60 \<and>
     map barText (handle_all s ds) = replicate (length ds) 60"
  by (induction ds arbitrary: s) (simp_all add: Let_def processing_update)

section \<open>Progress under \<open>processing\<close> updates\<close>

text \<open>
  C1. \<open>handleStatusUpdate\<close> raises the bar above 60 on a \<open>completed\<close> update only: the
  bar starts at 0 and every other update keeps it at most 60 (\<open>bar_le_60_init\<close>,
  \<open>bar_le_60_kept\<close>). From such a state, for every sequence of updates that are all
  \<open>processing\<close>, the percentage is non-decreasing from the value before the first update
  through the values after each update; every value after an update is strictly below 100
  and at most the ceiling 90; and each update advances the percentage by an increment that
  is at least 0 and at most the distance from the starting value to 60. The script reaches
  this with a fixed target: the value after each update is 60.
\<close>

theorem processing_progress_monotone:
  assumes "\<forall>d\<in>set ds. status d = JStr ''processing''" and "barWidth s \<le> 60"
  shows "sorted (barWidth s # map barWidth (handle_all s ds)) \<and>
         list_all (\<lambda>p. p < 100 \<and> p \<le> 90) (map barWidth (handle_all s ds)) \<and>
         list_all (\<lambda>(a, b). a \<le> b \<and> b - a \<le> 60 - barWidth s \<and> b \<le> 90)
           (zip (barWidth s # map barWidth (handle_all s ds)) (map barWidth (handle_all s ds))) \<and>
         map barWidth (handle_all s ds) = replicate (length ds) 60 \<and>
         map barText (handle_all s ds) = replicate (length ds) 60"
proof -
  note h = handle_all_processing [OF assms(1), of s]
  have "list_all (\<lambda>p. p < 100 \<and> p \<le> 90) (replicate n (60::int))" for n
    by (simp add: list_all_iff)
  with h sixty_steps [OF assms(2), of "length ds"] assms(2) show ?thesis
    by (simp add: sorted_replicate)
qed

theorem processing_progress_monotone_witness:
  "map barWidth (handle_all (updateProgress init_state 30 msg_processing)
     [\<lparr>status = JStr ''processing'', session_id = JStr ''s1''\<rparr>,
      \<lparr>status = JStr ''processing'', session_id = JStr ''s1''\<rparr>]) = [60, 60] \<and>
   sorted (barWidth (updateProgress init_state 30 msg_processing) #
     map barWidth (handle_all (updateProgress init_state 30 msg_processing)
     [\<lparr>status = JStr ''processing'', session_id = JStr ''s1''\<rparr>,
      \<lparr>status = JStr ''processing'', session_id = JStr ''s1''\<rparr>]))"
proof -
  have bar: "barWidth (updateProgress init_state 30 msg_processing) = 30"
    by (simp add: progress_defs)
  show ?thesis
    using processing_progress_monotone
      [of "[\<lparr>status = JStr ''processing'', session_id = JStr ''s1''\<rparr>,
            \<lparr>status = JStr ''processing'', session_id = JStr ''s1''\<rparr>]"
          "updateProgress init_state 30 msg_processing"] bar
    by simp
qed

section \<open>Terminal updates\<close>

lemma completed_update:
  assumes "status d = JStr ''completed''"
  shows "barWidth (fst (handleStatusUpdate s d)) = 100 \<and>
         barText (fst (handleStatusUpdate s d)) = 100 \<and>
         calls (fst (handleStatusUpdate s d)) = calls s @ [OnProcessingComplete] \<and>
         pollingInterval (fst (handleStatusUpdate s d)) = pollingInterval (stopPolling s) \<and>
         timers (fst (handleStatusUpdate s d)) = timers (stopPolling s)"
  using assms
  by (simp add: handleStatusUpdate_def progress_defs handler_defs stopPolling_eq Let_def
      split: js_value.splits)

lemma error_update:
  assumes "status d = JStr ''error''"
  shows "handleStatusUpdate s d =
    ((stopPolling s)\<lparr>
        calls := calls s @ [OnProcessingError],
        barClasses := addClass [''bg-danger'']
           (removeClass [''progress-bar-striped'', ''progress-bar-animated''] (barClasses s)),
        statusText := msg_error_status,
        toasts := toasts s @ [(msg_error_toast, ''danger'')],
        formInputsDisabled := False, uploadBtnDisabled := False,
        uploadBtnText := ''Processar Arquivos''\<rparr>, None)"
  using assms
  by (simp add: handleStatusUpdate_def handler_defs stopPolling_eq Let_def)

text \<open>
  C2, as amended. A \<open>completed\<close> update sets the percentage to exactly 100, enters
  \<open>onProcessingComplete\<close> exactly once (one entry is added to the trace of handlers,
  whether or not the response carries a session id) and stops polling: the handle is
  cleared and no timer is left, so a timer that comes due afterwards issues no request,
  and with no request under way no later event changes anything. The response of a
  request that was already under way is outside this guarantee. The state is one in which
  the timer table holds the timer of \<open>pollingInterval\<close> and no other, as in every state
  the script reaches.
\<close>

theorem completed_sets_100_and_stops:
  assumes "status d = JStr ''completed''" and "timers_ok s"
  shows "barWidth (fst (handleStatusUpdate s d)) = 100 \<and>
         barText (fst (handleStatusUpdate s d)) = 100 \<and>
         calls (fst (handleStatusUpdate s d)) = calls s @ [OnProcessingComplete] \<and>
         pollingInterval (fst (handleStatusUpdate s d)) = None \<and>
         timers (fst (handleStatusUpdate s d)) = [] \<and>
         timer_fires \<lparr>page = fst (handleStatusUpdate s d), pending = p\<rparr> h =
           \<lparr>page = fst (handleStatusUpdate s d), pending = p\<rparr> \<and>
         run_events \<lparr>page = fst (handleStatusUpdate s d), pending = []\<rparr> evs =
           \<lparr>page = fst (handleStatusUpdate s d), pending = []\<rparr>"
proof -
  note c = completed_update [OF assms(1), of s]
  note q = stopPolling_ok [OF assms(2)]
  from c q have t: "timers (fst (handleStatusUpdate s d)) = []" by simp
  from t have f: "timer_fires \<lparr>page = fst (handleStatusUpdate s d), pending = p\<rparr> h =
      \<lparr>page = fst (handleStatusUpdate s d), pending = p\<rparr>"
    by (simp add: timer_fires_no_timers)
  from t have r: "run_events \<lparr>page = fst (handleStatusUpdate s d), pending = []\<rparr> evs =
      \<lparr>page = fst (handleStatusUpdate s d), pending = []\<rparr>"
    by (simp add: run_events_idle)
  from c q t f r show ?thesis by simp
qed

theorem completed_sets_100_and_stops_witness:
  "timers (startPolling init_state ''s1'') = [(1, ''s1'')] \<and>
   barWidth (fst (handleStatusUpdate (startPolling init_state ''s1'')
      \<lparr>status = JStr ''completed'', session_id = JStr ''s1''\<rparr>)) = 100 \<and>
   timers (fst (handleStatusUpdate (startPolling init_state ''s1'')
      \<lparr>status = JStr ''completed'', session_id = JStr ''s1''\<rparr>)) = [] \<and>
   calls (page (run_events
      \<lparr>page = fst (handleStatusUpdate (startPolling init_state ''s1'')
          \<lparr>status = JStr ''completed'', session_id = JStr ''s1''\<rparr>), pending = []\<rparr>
      [TimerFires 1,
       ResponseArrives 0 (Resolved \<lparr>status = JStr ''completed'', session_id = JStr ''s1''\<rparr>)]))
     = [OnProcessingComplete]"
proof -
  have ok: "timers_ok (startPolling init_state ''s1'')"
    by (simp add: timers_ok_def timer_defs init_state_def Let_def)
  have st: "status \<lparr>status = JStr ''completed'', session_id = JStr ''s1''\<rparr> = JStr ''completed''"
    by simp
  have tm: "timers (startPolling init_state ''s1'') = [(1, ''s1'')]"
    by (simp add: timer_defs init_state_def Let_def)
  have cl: "calls (startPolling init_state ''s1'') = []"
    by (simp add: timer_defs init_state_def Let_def)
  show ?thesis
    using completed_sets_100_and_stops [OF st ok,
        of _ _ "[TimerFires 1,
          ResponseArrives 0 (Resolved \<lparr>status = JStr ''completed'', session_id = JStr ''s1''\<rparr>)]"]
      tm cl
    by simp
qed

text \<open>
  C2 as stated fails on its last part. The timer of session \<open>s1\<close> fires twice before
  the first response is back, so two requests are under way. The first \<open>completed\<close>
  response sets the bar to 100, enters \<open>onProcessingComplete\<close> and stops polling; the
  second response is handled all the same and enters \<open>onProcessingComplete\<close> again.
\<close>

theorem completion_invoked_again:
  "pending (run_events \<lparr>page = startPolling init_state ''s1'', pending = []\<rparr>
      [TimerFires 1, TimerFires 1]) = [''s1'', ''s1''] \<and>
   calls (page (run_events \<lparr>page = startPolling init_state ''s1'', pending = []\<rparr>
      [TimerFires 1, TimerFires 1,
       ResponseArrives 0 (Resolved \<lparr>status = JStr ''completed'', session_id = JStr ''s1''\<rparr>)]))
     = [OnProcessingComplete] \<and>
   timers (page (run_events \<lparr>page = startPolling init_state ''s1'', pending = []\<rparr>
      [TimerFires 1, TimerFires 1,
       ResponseArrives 0 (Resolved \<lparr>status = JStr ''completed'', session_id = JStr ''s1''\<rparr>)]))
     = [] \<and>
   calls (page (run_events \<lparr>page = startPolling init_state ''s1'', pending = []\<rparr>
      [TimerFires 1, TimerFires 1,
       ResponseArrives 0 (Resolved \<lparr>status = JStr ''completed'', session_id = JStr ''s1''\<rparr>),
       ResponseArrives 0 (Resolved \<lparr>status = JStr ''completed'', session_id = JStr ''s1''\<rparr>)]))
     = [OnProcessingComplete, OnProcessingComplete]"
  by (simp add: run_events_def timer_fires_def response_arrives_def checkStatus_def
      handleStatusUpdate_def progress_defs handler_defs stopPolling_eq timer_defs
      init_state_def Let_def)

text \<open>
  C3. An \<open>error\<close> update raises nothing, enters \<open>onProcessingError\<close> exactly once and
  stops the polling timer: the handle is cleared, no timer is left, and no tick that comes
  due afterwards changes anything; nothing polls again until \<open>startPolling\<close> is called.
\<close>

theorem error_stops_polling:
  assumes "status d = JStr ''error''" and "timers_ok s"
  shows "snd (handleStatusUpdate s d) = None \<and>
         calls (fst (handleStatusUpdate s d)) = calls s @ [OnProcessingError] \<and>
         pollingInterval (fst (handleStatusUpdate s d)) = None \<and>
         timers (fst (handleStatusUpdate s d)) = [] \<and>
         ticks (fst (handleStatusUpdate s d)) evs = fst (handleStatusUpdate s d)"
proof -
  note e = error_update [OF assms(1), of s]
  note p = stopPolling_ok [OF assms(2)]
  from e p have t: "timers (fst (handleStatusUpdate s d)) = []" by simp
  from e p t ticks_no_timers [OF t] show ?thesis by simp
qed

theorem error_stops_polling_witness:
  "timers (startPolling init_state ''s1'') = [(1, ''s1'')] \<and>
   timers (fst (handleStatusUpdate (startPolling init_state ''s1'')
      \<lparr>status = JStr ''error'', session_id = JStr ''s1''\<rparr>)) = [] \<and>
   calls (ticks (fst (handleStatusUpdate (startPolling init_state ''s1'')
      \<lparr>status = JStr ''error'', session_id = JStr ''s1''\<rparr>))
      [(1, Resolved \<lparr>status = JStr ''error'', session_id = JStr ''s1''\<rparr>)])
     = [OnProcessingError]"
proof -
  have ok: "timers_ok (startPolling init_state ''s1'')"
    by (simp add: timers_ok_def timer_defs init_state_def Let_def)
  have st: "status \<lparr>status = JStr ''error'', session_id = JStr ''s1''\<rparr> = JStr ''error''"
    by simp
  have tm: "timers (startPolling init_state ''s1'') = [(1, ''s1'')]"
    by (simp add: timer_defs init_state_def Let_def)
  have cl: "calls (startPolling init_state ''s1'') = []"
    by (simp add: timer_defs init_state_def Let_def)
  show ?thesis
    using error_stops_polling [OF st ok,
        of "[(1, Resolved \<lparr>status = JStr ''error'', session_id = JStr ''s1''\<rparr>)]"] tm cl
    by simp
qed

section \<open>Step indicators\<close>

lemma distinct_step_ids: "distinct (map step_id steps)"
  by (simp add: steps_def)

lemma fold_updateStep:
  "distinct (map step_id sts) \<Longrightarrow>
     fold (updateStep p) sts els i =
       (case find (\<lambda>st. step_id st = i) sts of
          None \<Rightarrow> els i
        | Some st \<Rightarrow> map_option (styleStep p st) (els i))"
proof (induction sts arbitrary: els)
  case Nil
  then show ?case by simp
next
  case (Cons x xs)
  show ?case
  proof (cases "step_id x = i")
    case True
    with Cons.prems have "find (\<lambda>st. step_id st = i) xs = None"
      by (force simp: find_None_iff image_iff)
    with True Cons show ?thesis
      by (simp add: updateStep_def split: option.splits)
  next
    case False
    with Cons show ?thesis
      by (simp add: updateStep_def split: option.splits)
  qed
qed

lemma find_step:
  "distinct (map step_id sts) \<Longrightarrow> st \<in> set sts \<Longrightarrow> find (\<lambda>x. step_id x = step_id st) sts = Some st"
  by (induction sts) auto

lemma styleStep_idem: "styleStep p st (styleStep p st el) = styleStep p st el"
  by (simp add: styleStep_def removeClass_def)

lemma rendered_styleStep:
  "rendered (styleStep p st el) =
     (if p \<ge> threshold st then Completed
      else if p \<ge> threshold st - 15 then Current
      else rendered el)"
  by (simp add: styleStep_def rendered_def removeClass_def)

lemma updateStepIndicators_idem:
  "updateStepIndicators (updateStepIndicators s p) p = updateStepIndicators s p"
proof -
  have "fold (updateStep p) steps (fold (updateStep p) steps els) i = fold (updateStep p) steps els i"
    for els i
    by (simp add: fold_updateStep [OF distinct_step_ids] styleStep_idem option.map_comp comp_def
        split: option.splits)
  then have "fold (updateStep p) steps (fold (updateStep p) steps els) = fold (updateStep p) steps els"
    for els by (rule ext)
  then show ?thesis by (simp add: updateStepIndicators_def)
qed

lemma step_rendering:
  assumes "st \<in> set steps" and "stepEls s (step_id st) = Some el"
  shows "map_option rendered (stepEls (updateStepIndicators s p) (step_id st)) =
     Some (if p \<ge> threshold st then Completed
           else if p \<ge> threshold st - 15 then Current
           else rendered el)"
  using assms
  by (simp add: updateStepIndicators_def fold_updateStep [OF distinct_step_ids]
      find_step [OF distinct_step_ids] rendered_styleStep)

text \<open>
  C4. The claim that a step below the look-behind window is rendered pending does not hold
  of \<open>updateStepIndicators\<close>: it has no branch for that case and leaves the element as it
  was (\<open>step_rendering\<close>), so the rendering depends on what was rendered before. The
  run below is a processing run polled once (bar at 60), cancelled, and the upload started
  again, which calls \<open>updateProgress\<close> with 10: the transcription and OCR steps still
  read completed and the correlation step current, where the classification by thresholds
  gives pending for all three. The other parts of the claim hold: at or above the
  threshold a step reads completed, within the window current (\<open>step_rendering\<close>), and
  a second call with the same percentage changes nothing (\<open>updateStepIndicators_idem\<close>).
\<close>

theorem stale_steps_after_restart:
  "map (\<lambda>st. map_option rendered (stepEls
      (updateProgress
         (stopPolling (fst (handleStatusUpdate (startPolling init_state ''s1'')
            \<lparr>status = JStr ''processing'', session_id = JStr ''s1''\<rparr>)))
         10 ''Enviando arquivos...'') (step_id st))) steps =
     [Some Current, Some Completed, Some Completed, Some Current, Some Pending, Some Pending] \<and>
   map (\<lambda>st. spec_classification 10 (threshold st)) steps =
     [Current, Pending, Pending, Pending, Pending, Pending]"
  by (simp add: steps_def spec_classification_def handleStatusUpdate_def progress_defs
      stopPolling_eq startPolling_def setInterval_def clearInterval_def truthy_handle_def
      init_state_def pending_el_def updateStep_def styleStep_def removeClass_def rendered_def Let_def)

section \<open>Starting and stopping the timer\<close>

text \<open>
  C5. \<open>startPolling\<close> for session \<open>a\<close> and then for session \<open>b\<close>, with no tick in
  between: the first call installs one timer for \<open>a\<close>; the second cancels it and installs
  one for \<open>b\<close>, which is then the only timer and the one \<open>pollingInterval\<close> names. A tick
  of the cancelled handle does nothing; a tick of the new handle checks the status of \<open>b\<close>.
  Nothing is assumed about \<open>a\<close> and \<open>b\<close> being different.
\<close>

theorem startPolling_replaces_timer:
  assumes "timers_ok s"
  shows "timers (startPolling s a) = [(Suc (timerCounter s), a)] \<and>
         timers (startPolling (startPolling s a) b) = [(Suc (Suc (timerCounter s)), b)] \<and>
         pollingInterval (startPolling (startPolling s a) b) = Some (Suc (Suc (timerCounter s))) \<and>
         tick (startPolling (startPolling s a) b) (Suc (timerCounter s), out) =
           startPolling (startPolling s a) b \<and>
         tick (startPolling (startPolling s a) b) (Suc (Suc (timerCounter s)), out) =
           checkStatus (startPolling (startPolling s a) b) b out"
proof -
  note fst_start = startPolling_ok [OF assms, of a]
  note snd_start = startPolling_ok [OF timers_ok_startPolling [OF assms, of a], of b]
  from fst_start snd_start show ?thesis by (simp add: tick_eq)
qed

theorem startPolling_replaces_timer_witness:
  "timers (startPolling init_state ''A'') = [(1, ''A'')] \<and>
   timers (startPolling (startPolling init_state ''A'') ''B'') = [(2, ''B'')] \<and>
   timers (startPolling (startPolling init_state ''A'') ''A'') = [(2, ''A'')] \<and>
   tick (startPolling (startPolling init_state ''A'') ''B'') (1, Rejected ''offline'') =
     startPolling (startPolling init_state ''A'') ''B''"
  using startPolling_replaces_timer [OF timers_ok_init, of "''A''" "''B''" "Rejected ''offline''"]
    startPolling_replaces_timer [OF timers_ok_init, of "''A''" "''A''" "Rejected ''offline''"]
  by (simp add: init_state_def)

text \<open>
  C8. \<open>stopPolling\<close> with no timer active (the handle is null) returns the state
  unchanged and raises nothing; with a timer active it cancels that timer and sets the
  handle to null, and changes nothing else.
\<close>

theorem stopPolling_idle_and_active:
  "(pollingInterval s = None \<longrightarrow> stopPolling s = s) \<and>
   (\<forall>h. pollingInterval s = Some h \<and> h \<noteq> 0 \<longrightarrow>
      stopPolling s = s\<lparr>pollingInterval := None, timers := filter (\<lambda>t. fst t \<noteq> h) (timers s)\<rparr> \<and>
      h \<notin> fst ` set (timers (stopPolling s)))"
  by (auto simp: timer_defs)

theorem stopPolling_idle_and_active_witness:
  "stopPolling init_state = init_state \<and>
   pollingInterval (startPolling init_state ''s1'') = Some 1 \<and>
   pollingInterval (stopPolling (startPolling init_state ''s1'')) = None \<and>
   timers (stopPolling (startPolling init_state ''s1'')) = []"
proof -
  have a: "pollingInterval init_state = None" by (simp add: init_state_def)
  have b: "pollingInterval (startPolling init_state ''s1'') = Some 1 \<and>
           timers (startPolling init_state ''s1'') = [(1, ''s1'')]"
    using startPolling_ok [OF timers_ok_init, of "''s1''"] by (simp add: init_state_def)
  show ?thesis
    using stopPolling_idle_and_active [of init_state]
      stopPolling_idle_and_active [of "startPolling init_state ''s1''"] a b
    by simp
qed

section \<open>Unknown statuses and failed polls\<close>

text \<open>
  C6. For every status value other than the strings \<open>uploading\<close>, \<open>processing\<close>,
  \<open>completed\<close> and \<open>error\<close> (a different string, or a value that is not a string),
  \<open>handleStatusUpdate\<close> returns the state unchanged and raises no error.
\<close>

theorem unknown_status_ignored:
  assumes "status d \<notin> {JStr ''uploading'', JStr ''processing'', JStr ''completed'', JStr ''error''}"
  shows "handleStatusUpdate s d = (s, None)"
  using assms by (simp add: handleStatusUpdate_def)

theorem unknown_status_ignored_witness:
  "handleStatusUpdate init_state \<lparr>status = JStr ''queued'', session_id = JStr ''s1''\<rparr> =
     (init_state, None) \<and>
   handleStatusUpdate init_state \<lparr>status = JUndefined, session_id = JStr ''s1''\<rparr> =
     (init_state, None)"
  using unknown_status_ignored [of "\<lparr>status = JStr ''queued'', session_id = JStr ''s1''\<rparr>" init_state]
    unknown_status_ignored [of "\<lparr>status = JUndefined, session_id = JStr ''s1''\<rparr>" init_state]
  by simp

text \<open>
  C7. A poll whose request fails logs the error (once in \<open>Utils.apiRequest\<close>, once in
  \<open>checkStatus\<close>) and shows a toast, and changes nothing else: the timer table and the
  handle are as before, so the timer that fired is still installed and fires again.
\<close>

theorem failed_poll_keeps_timer:
  "checkStatus s sid (Rejected e) =
     s\<lparr>toasts := toasts s @ [(msg_check_failed, ''danger'')],
       consoleErrors := consoleErrors s @
         [(''API Request Error:'', e), (''Error checking status:'', e)]\<rparr> \<and>
   timers (checkStatus s sid (Rejected e)) = timers s \<and>
   pollingInterval (checkStatus s sid (Rejected e)) = pollingInterval s \<and>
   timers (tick s (h, Rejected e)) = timers s \<and>
   pollingInterval (tick s (h, Rejected e)) = pollingInterval s"
  by (simp add: tick_eq checkStatus_def handler_defs split: option.splits)

section \<open>The step catalog\<close>

text \<open>
  C9. The thresholds of the step catalog are strictly increasing: each is below all later
  ones, and in particular each step's threshold is below that of the next step.
\<close>

theorem thresholds_strictly_increasing:
  "sorted_wrt (<) (map threshold steps) \<and>
   list_all (\<lambda>(a, b). threshold a < threshold b) (zip steps (tl steps))"
  by (simp add: steps_def)

section \<open>What an error update leaves alone\<close>

text \<open>
  C10, as amended. An \<open>error\<close> update leaves the percentage of the bar (width and text)
  and every step element as they were: \<open>onProcessingError\<close> does not call
  \<open>updateProgress\<close>. It changes the classes of the bar, the status text, and the disabled
  state and label of the upload form, and besides these it stops polling (the timer is
  cancelled and the handle set to null) and shows a toast; nothing else changes.
\<close>

theorem error_keeps_progress:
  assumes "status d = JStr ''error''"
  shows "barWidth (fst (handleStatusUpdate s d)) = barWidth s \<and>
         barText (fst (handleStatusUpdate s d)) = barText s \<and>
         stepEls (fst (handleStatusUpdate s d)) = stepEls s \<and>
         map (\<lambda>st. map_option rendered (stepEls (fst (handleStatusUpdate s d)) (step_id st))) steps =
           map (\<lambda>st. map_option rendered (stepEls s (step_id st))) steps \<and>
         fst (handleStatusUpdate s d) =
           (stopPolling s)\<lparr>
             calls := calls s @ [OnProcessingError],
             barClasses := addClass [''bg-danger'']
               (removeClass [''progress-bar-striped'', ''progress-bar-animated''] (barClasses s)),
             statusText := msg_error_status,
             toasts := toasts s @ [(msg_error_toast, ''danger'')],
             formInputsDisabled := False, uploadBtnDisabled := False,
             uploadBtnText := ''Processar Arquivos''\<rparr>"
  by (simp add: error_update [OF assms] stopPolling_eq)

theorem error_keeps_progress_witness:
  "barWidth (fst (handleStatusUpdate (updateProgress init_state 30 msg_processing)
      \<lparr>status = JStr ''error'', session_id = JStr ''s1''\<rparr>)) = 30 \<and>
   stepEls (fst (handleStatusUpdate (updateProgress init_state 30 msg_processing)
      \<lparr>status = JStr ''error'', session_id = JStr ''s1''\<rparr>)) =
     stepEls (updateProgress init_state 30 msg_processing)"
proof -
  have st: "status \<lparr>status = JStr ''error'', session_id = JStr ''s1''\<rparr> = JStr ''error''"
    by simp
  note kept = error_keeps_progress [OF st, of "updateProgress init_state 30 msg_processing"]
  have bar: "barWidth (updateProgress init_state 30 msg_processing) = 30"
    by (simp add: progress_defs)
  from kept [THEN conjunct1] bar kept [THEN conjunct2, THEN conjunct2, THEN conjunct1]
  show ?thesis by simp
qed

text \<open>
  C10 as stated fails on the word only: with a timer installed, the \<open>error\<close> update also
  cancels the timer, clears the handle and adds a toast.
\<close>

theorem error_update_modifies_more:
  "timers (startPolling init_state ''s1'') = [(1, ''s1'')] \<and>
   timers (fst (handleStatusUpdate (startPolling init_state ''s1'')
      \<lparr>status = JStr ''error'', session_id = JStr ''s1''\<rparr>)) = [] \<and>
   pollingInterval (startPolling init_state ''s1'') = Some 1 \<and>
   pollingInterval (fst (handleStatusUpdate (startPolling init_state ''s1'')
      \<lparr>status = JStr ''error'', session_id = JStr ''s1''\<rparr>)) = None \<and>
   toasts (startPolling init_state ''s1'') = [] \<and>
   toasts (fst (handleStatusUpdate (startPolling init_state ''s1'')
      \<lparr>status = JStr ''error'', session_id = JStr ''s1''\<rparr>)) = [(msg_error_toast, ''danger'')]"
  by (simp add: handleStatusUpdate_def handler_defs stopPolling_eq timer_defs init_state_def Let_def)

end
